theory Spec2Isabelle
  imports Main "HOL-Library.Sublist"
begin

section \<open>The NVIDIA provider adapter (app/lib/modules/llm/providers/nvidia.ts)\<close>

text \<open>
  The adapter has three parts: the constant list \<open>staticModels\<close>, the method
  \<open>getDynamicModels\<close> that lists the remote models and re-shapes them, and the method
  \<open>getModelInstance\<close> that configures a client.

  Modelling conventions.
  \<^item> JavaScript strings are \<open>string\<close>; \<open>startsWith\<close> and \<open>includes\<close> are written out.
  \<^item> An optional string (\<open>undefined\<close> or a string) is a \<open>string option\<close>. JavaScript
    treats both \<open>undefined\<close> and the empty string as false in \<open>!x\<close>, \<open>x || y\<close> and
    \<open>x ? a : b\<close>; \<open>truthy\<close> is that test.
  \<^item> The numbers of the remote response are JSON integers, modelled as \<open>int\<close>;
    \<open>Math.floor (n / 1000)\<close> is \<open>n div 1000\<close> (which rounds down, also below zero), and
    a number inside a template literal is its decimal notation. A number is false in a
    condition exactly when it is zero. JavaScript numbers are IEEE doubles: they hold
    every integer of magnitude up to 9007199254740991 exactly, and on that range the
    division, \<open>Math.floor\<close>, \<open>Math.min\<close> and the printed digits agree with the integer
    model. Beyond it the source rounds, and prints an exponent from \<open>1e21\<close>, so a
    statement about the label is made for that range only.
  \<^item> The inherited method \<open>getProviderBaseUrlAndKey\<close>, the global \<open>fetch\<close> and the
    factory \<open>createOpenAI\<close> are not part of this file. The first two are parameters of
    the model; the handle that the factory returns is represented by the settings and the
    model name it was given.
  \<^item> A thrown value is \<open>Inl\<close> of the result; the requests sent over the network are
    returned next to the result, in order.
  \<^item> The remote response has the shape of the wire contract,
    \<open>{ data: [{ id: string, object: string, context_length?: number }] }\<close>; a response
    of another shape (on which the source raises a type error) is outside the model.
\<close>

subsection \<open>Strings and numbers\<close>

definition startsWith :: "string \<Rightarrow> string \<Rightarrow> bool" where
  "startsWith s p = (take (length p) s = p)"

fun includesStr :: "string \<Rightarrow> string \<Rightarrow> bool" where
  "includesStr [] p = (p = [])"
| "includesStr (c # cs) p = (startsWith (c # cs) p \<or> includesStr cs p)"

definition digit :: "nat \<Rightarrow> char" where
  "digit d = ''0123456789'' ! d"

fun showNat :: "nat \<Rightarrow> string" where
  "showNat n = (if n < 10 then [digit n] else showNat (n div 10) @ [digit (n mod 10)])"

declare showNat.simps [simp del]

text \<open>
  The digits of a number inside a template literal; exact decimal notation, which is what
  JavaScript prints for an integer of magnitude up to 9007199254740991.
\<close>

definition showInt :: "int \<Rightarrow> string" where
  "showInt i = (if i < 0 then CHR ''-'' # showNat (nat (- i)) else showNat (nat i))"

fun truthy :: "string option \<Rightarrow> bool" where
  "truthy None = False"
| "truthy (Some s) = (s \<noteq> [])"

text \<open>\<open>orElse x d\<close> is the JavaScript \<open>x || d\<close> for an optional string \<open>x\<close>.\<close>

fun orElse :: "string option \<Rightarrow> string \<Rightarrow> string" where
  "orElse None d = d"
| "orElse (Some s) d = (if s = [] then d else s)"

subsection \<open>The data model\<close>

record ModelInfo =
  name :: string
  label :: string
  provider :: string
  maxTokenAllowed :: int
  maxCompletionTokens :: int

text \<open>A record of the remote list: \<open>{ id, object, context_length? }\<close>.\<close>

record RemoteModel =
  model_id :: string
  object :: string
  context_length :: "int option"

record RemoteResponse =
  data :: "RemoteModel list"

record Credentials =
  apiKey :: "string option"
  baseUrl :: "string option"

text \<open>The argument of \<open>getProviderBaseUrlAndKey\<close>.\<close>

record 's ResolveOptions =
  opt_apiKeys :: "(string \<rightharpoonup> string) option"
  opt_providerSettings :: "'s option"
  opt_serverEnv :: "(string \<rightharpoonup> string) option"
  defaultBaseUrlKey :: string
  defaultApiTokenKey :: string

record Request =
  url :: string
  headers :: "(string \<times> string) list"

datatype error = ThrownString string | TransportError string

subsection \<open>The static catalog\<close>

definition staticModels :: "ModelInfo list" where
  "staticModels =
    [ \<lparr>name = ''gpt-4o'', label = ''GPT-4o'', provider = ''NVIDIA'',
        maxTokenAllowed = 128000, maxCompletionTokens = 4096\<rparr>,
      \<lparr>name = ''gpt-4o-mini'', label = ''GPT-4o Mini'', provider = ''NVIDIA'',
        maxTokenAllowed = 128000, maxCompletionTokens = 4096\<rparr>,
      \<lparr>name = ''gpt-3.5-turbo'', label = ''GPT-3.5 Turbo'', provider = ''NVIDIA'',
        maxTokenAllowed = 16000, maxCompletionTokens = 4096\<rparr>,
      \<lparr>name = ''o1-preview'', label = ''o1-preview'', provider = ''NVIDIA'',
        maxTokenAllowed = 128000, maxCompletionTokens = 32000\<rparr>,
      \<lparr>name = ''o1-mini'', label = ''o1-mini'', provider = ''NVIDIA'',
        maxTokenAllowed = 128000, maxCompletionTokens = 65000\<rparr>,
      \<lparr>name = ''qwen/qwen3-coder-480b-a35b-instruct'', label = ''Qwen3 Coder 480B'',
        provider = ''NVIDIA'', maxTokenAllowed = 32000, maxCompletionTokens = 8192\<rparr>,
      \<lparr>name = ''moonshotai/kimi-k2-instruct-0905'', label = ''Kimi K2 Instruct'',
        provider = ''NVIDIA'', maxTokenAllowed = 32000, maxCompletionTokens = 8192\<rparr> ]"

subsection \<open>getDynamicModels\<close>

definition staticModelIds :: "string list" where
  "staticModelIds = map name staticModels"

text \<open>The predicate of \<open>res.data.filter\<close>.\<close>

definition keepModel :: "RemoteModel \<Rightarrow> bool" where
  "keepModel m =
    (object m = ''model'' \<and>
     (startsWith (model_id m) ''gpt-'' \<or> startsWith (model_id m) ''o''
        \<or> startsWith (model_id m) ''chatgpt-'') \<and>
     model_id m \<notin> set staticModelIds)"

text \<open>The two chains of conditionals inside \<open>data.map\<close>.\<close>

definition heuristicWindow :: "string \<Rightarrow> int" where
  "heuristicWindow i =
    (if includesStr i ''gpt-4o'' then 128000
     else if includesStr i ''gpt-4-turbo'' \<or> includesStr i ''gpt-4-1106'' then 128000
     else if includesStr i ''gpt-4'' then 8192
     else if includesStr i ''gpt-3.5-turbo'' then 16385
     else 32000)"

definition contextWindow :: "RemoteModel \<Rightarrow> int" where
  "contextWindow m =
    (case context_length m of
       Some n \<Rightarrow> (if n \<noteq> 0 then n else heuristicWindow (model_id m))
     | None \<Rightarrow> heuristicWindow (model_id m))"

definition completionLimit :: "string \<Rightarrow> int" where
  "completionLimit i =
    (if startsWith i ''o1-preview'' then 32000
     else if startsWith i ''o1-mini'' then 65000
     else if startsWith i ''o1'' then 32000
     else if includesStr i ''o3'' \<or> includesStr i ''o4'' then 100000
     else if includesStr i ''gpt-4o'' then 4096
     else if includesStr i ''gpt-4'' then 8192
     else if includesStr i ''gpt-3.5-turbo'' then 4096
     else 4096)"

text \<open>
  The function passed to \<open>data.map\<close>. The label and the minimum are computed on exact
  integers, as the source does for a context window of magnitude up to 9007199254740991.
\<close>

definition toModelInfo :: "RemoteModel \<Rightarrow> ModelInfo" where
  "toModelInfo m =
    \<lparr>name = model_id m,
     label = model_id m @ '' ('' @ showInt (contextWindow m div 1000) @ ''k context)'',
     provider = ''NVIDIA'',
     maxTokenAllowed = min (contextWindow m) 128000,
     maxCompletionTokens = completionLimit (model_id m)\<rparr>"

definition modelsRequest :: "string \<Rightarrow> string option \<Rightarrow> Request" where
  "modelsRequest key base =
    \<lparr>url = (case base of
              Some b \<Rightarrow> (if b \<noteq> [] then b @ ''/models''
                         else ''https://integrate.api.nvidia.com/v1/models'')
            | None \<Rightarrow> ''https://integrate.api.nvidia.com/v1/models''),
     headers = [(''Authorization'', ''Bearer '' @ key),
                (''Content-Type'', ''application/json'')]\<rparr>"

text \<open>
  The result is the list of requests that were sent and either the thrown value or the
  list of descriptors. A failure of \<open>fetch\<close> or of \<open>response.json\<close> is not caught.
\<close>

definition dynamicResolveOptions ::
  "(string \<rightharpoonup> string) option \<Rightarrow> 's option \<Rightarrow> (string \<rightharpoonup> string) option \<Rightarrow>
   's ResolveOptions" where
  "dynamicResolveOptions apiKeys settings serverEnv =
    \<lparr>opt_apiKeys = apiKeys, opt_providerSettings = settings, opt_serverEnv = serverEnv,
     defaultBaseUrlKey = ''NVIDIA_BASE_URL'', defaultApiTokenKey = ''NVIDIA_API_KEY''\<rparr>"

definition getDynamicModels ::
  "('s ResolveOptions \<Rightarrow> Credentials) \<Rightarrow> (Request \<Rightarrow> error + RemoteResponse) \<Rightarrow>
   (string \<rightharpoonup> string) option \<Rightarrow> 's option \<Rightarrow> (string \<rightharpoonup> string) option \<Rightarrow>
   Request list \<times> (error + ModelInfo list)" where
  "getDynamicModels resolve fetch apiKeys settings serverEnv =
    (let creds = resolve (dynamicResolveOptions apiKeys settings serverEnv)
     in case apiKey creds of
          None \<Rightarrow> ([], Inl (ThrownString ''Missing API Key configuration for NVIDIA API''))
        | Some k \<Rightarrow>
            if k = [] then
              ([], Inl (ThrownString ''Missing API Key configuration for NVIDIA API''))
            else
              (let req = modelsRequest k (baseUrl creds) in
               case fetch req of
                 Inl e \<Rightarrow> ([req], Inl e)
               | Inr res \<Rightarrow> ([req], Inr (map toModelInfo (filter keepModel (data res))))))"

subsection \<open>getModelInstance\<close>

record 's InstanceOptions =
  inst_model :: string
  inst_serverEnv :: "string \<rightharpoonup> string"
  inst_apiKeys :: "(string \<rightharpoonup> string) option"
  inst_providerSettings :: "(string \<rightharpoonup> 's) option"

text \<open>What \<open>createOpenAI\<close> and the call \<open>openai(model)\<close> were given.\<close>

record ClientHandle =
  baseURL :: string
  clientApiKey :: string
  clientHeaders :: "(string \<times> string) list"
  clientModel :: string

definition hardcodedApiKey :: string where
  "hardcodedApiKey = ''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''"

text \<open>\<open>providerSettings?.[this.name]\<close>, with \<open>this.name = 'NVIDIA'\<close>.\<close>

definition instanceResolveOptions :: "'s InstanceOptions \<Rightarrow> 's ResolveOptions" where
  "instanceResolveOptions opts =
    \<lparr>opt_apiKeys = inst_apiKeys opts,
     opt_providerSettings = (case inst_providerSettings opts of None \<Rightarrow> None | Some ps \<Rightarrow> ps ''NVIDIA''),
     opt_serverEnv = Some (inst_serverEnv opts),
     defaultBaseUrlKey = ''NVIDIA_BASE_URL'',
     defaultApiTokenKey = ''NVIDIA_API_KEY''\<rparr>"

definition getModelInstance ::
  "('s ResolveOptions \<Rightarrow> Credentials) \<Rightarrow> 's InstanceOptions \<Rightarrow> ClientHandle" where
  "getModelInstance resolve opts =
    (let baseUrl1 = baseUrl (resolve (instanceResolveOptions opts));
         apiKey1 = apiKey (resolve (instanceResolveOptions opts));
         apiKey2 = orElse apiKey1 hardcodedApiKey
     in \<lparr>baseURL = orElse baseUrl1 ''https://integrate.api.nvidia.com/v1'',
         clientApiKey = apiKey2,
         clientHeaders = [(''Authorization'', ''Bearer '' @ apiKey2),
                          (''Content-Type'', ''application/json'')],
         clientModel = inst_model opts\<rparr>)"

subsection \<open>Stand-ins for the external collaborators\<close>

text \<open>
  A resolver that answers with fixed credentials and a \<open>fetch\<close> that answers with a
  fixed result, for running the two methods on concrete inputs.
\<close>

definition fixedResolve :: "Credentials \<Rightarrow> unit ResolveOptions \<Rightarrow> Credentials" where
  "fixedResolve c opts = c"

definition fixedFetch :: "error + RemoteResponse \<Rightarrow> Request \<Rightarrow> error + RemoteResponse" where
  "fixedFetch r req = r"

subsection \<open>The naming rule as the specification words it\<close>

text \<open>
  The specification describes the identifiers that the filter keeps as those with the
  prefix \<open>gpt-\<close>, the prefix \<open>chatgpt-\<close>, or the letter \<open>o\<close> followed by a digit.
  This predicate follows those words, for comparison with \<open>keepModel\<close>.
\<close>

definition specNamingPrefix :: "string \<Rightarrow> bool" where
  "specNamingPrefix i =
    (prefix ''gpt-'' i \<or> prefix ''chatgpt-'' i \<or>
     (case i of c # d # rest \<Rightarrow> c = CHR ''o'' \<and> d \<in> set ''0123456789'' | _ \<Rightarrow> False))"

section \<open>Auxiliary facts\<close>

lemmas eval_defs = toModelInfo_def contextWindow_def heuristicWindow_def completionLimit_def
  startsWith_def showInt_def showNat.simps digit_def

lemmas run_defs = getDynamicModels_def fixedResolve_def fixedFetch_def modelsRequest_def
  keepModel_def staticModelIds_def staticModels_def dynamicResolveOptions_def

text \<open>The two string tests agree with the prefix and the contiguous-sublist relations.\<close>

lemma startsWith_prefix: "startsWith s p = prefix p s"
  unfolding startsWith_def prefix_def
  by (metis append_eq_conv_conj append_take_drop_id)

lemma includesStr_sublist: "includesStr s p = sublist p s"
  by (induction s) (simp_all add: startsWith_prefix sublist_Cons_right)

lemma staticModelIds_set:
  "set staticModelIds = {''gpt-4o'', ''gpt-4o-mini'', ''gpt-3.5-turbo'', ''o1-preview'', ''o1-mini'',
      ''qwen/qwen3-coder-480b-a35b-instruct'', ''moonshotai/kimi-k2-instruct-0905''}"
  by (simp add: staticModelIds_def staticModels_def)

lemma keepModel_iff:
  "keepModel m =
    (object m = ''model'' \<and>
     (prefix ''gpt-'' (model_id m) \<or> prefix ''o'' (model_id m) \<or> prefix ''chatgpt-'' (model_id m)) \<and>
     model_id m \<notin> {''gpt-4o'', ''gpt-4o-mini'', ''gpt-3.5-turbo'', ''o1-preview'', ''o1-mini'',
      ''qwen/qwen3-coder-480b-a35b-instruct'', ''moonshotai/kimi-k2-instruct-0905''})"
  unfolding keepModel_def startsWith_prefix staticModelIds_set by (rule refl)

lemma startsWith_o1_variants:
  "startsWith i ''o1-preview'' \<or> startsWith i ''o1-mini'' \<Longrightarrow> startsWith i ''o1''"
  by (auto simp: startsWith_prefix prefix_def)

text \<open>The decimal notation determines the number.\<close>

lemma digit_inj: "d < 10 \<Longrightarrow> e < 10 \<Longrightarrow> digit d = digit e \<Longrightarrow> d = e"
proof -
  assume d: "d < 10" and e: "e < 10" and eq: "digit d = digit e"
  have dist: "distinct ''0123456789''" by simp
  have len: "length ''0123456789'' = 10" by simp
  from eq have "''0123456789'' ! d = ''0123456789'' ! e" by (simp only: digit_def)
  with nth_eq_iff_index_eq [OF dist, of d e] d e len show "d = e" by simp
qed

lemma showNat_nonempty: "showNat n \<noteq> []"
  by (subst showNat.simps) simp

lemma showNat_inj: "showNat a = showNat b \<Longrightarrow> a = b"
proof (induction a arbitrary: b rule: showNat.induct)
  case (1 a)
  show ?case
  proof (cases "a < 10")
    case small_a: True
    show ?thesis
    proof (cases "b < 10")
      case True
      with small_a "1.prems" show ?thesis
        by (simp add: showNat.simps [of a] showNat.simps [of b] digit_inj)
    next
      case False
      with small_a "1.prems" showNat_nonempty [of "b div 10"] show ?thesis
        by (simp add: showNat.simps [of a] showNat.simps [of b])
    qed
  next
    case big_a: False
    show ?thesis
    proof (cases "b < 10")
      case True
      with big_a "1.prems" showNat_nonempty [of "a div 10"] show ?thesis
        by (simp add: showNat.simps [of a] showNat.simps [of b])
    next
      case False
      with big_a "1.prems" have hd: "showNat (a div 10) = showNat (b div 10)"
        and tl: "digit (a mod 10) = digit (b mod 10)"
        by (simp_all add: showNat.simps [of a] showNat.simps [of b])
      from "1.IH" [OF big_a hd] have q: "a div 10 = b div 10" .
      from tl have r: "a mod 10 = b mod 10" by (simp add: digit_inj)
      from q r show ?thesis by (metis div_mult_mod_eq)
    qed
  qed
qed

lemma showNat_128: "showNat 128 = ''128''"
  by (simp add: showNat.simps digit_def)

lemma showInt_nonneg: "0 \<le> i \<Longrightarrow> showInt i = showNat (nat i)"
  by (simp add: showInt_def)

lemma showInt_eq_128: "0 \<le> i \<Longrightarrow> (showInt i = ''128'') = (i = 128)"
proof -
  assume i: "0 \<le> i"
  have "(showNat (nat i) = showNat 128) = (nat i = 128)"
    by (auto dest: showNat_inj)
  moreover from i have "(nat i = 128) = (i = 128)" by linarith
  ultimately show ?thesis using i by (simp add: showInt_nonneg showNat_128)
qed

lemma toModelInfo_capped: "maxTokenAllowed (toModelInfo m) \<le> 128000"
  by (simp add: toModelInfo_def)

section \<open>The filter of the dynamic catalog\<close>

text \<open>
  C1, as the specification states it, fails. The filter tests \<open>startsWith('o')\<close>, not
  the letter \<open>o\<close> followed by a digit: the record with id \<open>omni-moderation-latest\<close>
  and object \<open>model\<close> does not have a naming prefix in the specification's sense, and
  the fetch returns a descriptor for it.
\<close>

theorem dynamic_filter_counterexample:
  "\<not> specNamingPrefix ''omni-moderation-latest'' \<and>
   getDynamicModels (fixedResolve \<lparr>apiKey = Some ''key'', baseUrl = None\<rparr>)
      (fixedFetch (Inr \<lparr>data = [\<lparr>model_id = ''omni-moderation-latest'', object = ''model'',
                                  context_length = None\<rparr>]\<rparr>)) None None None
   = ([\<lparr>url = ''https://integrate.api.nvidia.com/v1/models'',
        headers = [(''Authorization'', ''Bearer key''), (''Content-Type'', ''application/json'')]\<rparr>],
      Inr [\<lparr>name = ''omni-moderation-latest'', label = ''omni-moderation-latest (32k context)'',
        provider = ''NVIDIA'', maxTokenAllowed = 32000, maxCompletionTokens = 4096\<rparr>])"
  by (simp add: specNamingPrefix_def getDynamicModels_def fixedResolve_def fixedFetch_def
      modelsRequest_def keepModel_def staticModelIds_def staticModels_def
      toModelInfo_def contextWindow_def heuristicWindow_def completionLimit_def
      startsWith_def showInt_def showNat.simps digit_def)

text \<open>
  C1, amended. When an API key resolves and the request succeeds, the fetch returns, in the
  order of the remote response's data array, exactly one transformed descriptor for each
  record whose object field equals \<open>model\<close>, whose id starts with \<open>gpt-\<close>, with
  \<open>o\<close> or with \<open>chatgpt-\<close>, and whose id is not (as an exact string) one of the
  seven identifiers of the static catalog; every other record is left out.
\<close>

theorem getDynamicModels_keeps:
  assumes "apiKey (resolve (dynamicResolveOptions apiKeys settings serverEnv)) = Some k"
    and "k \<noteq> []"
    and "fetch (modelsRequest k (baseUrl (resolve (dynamicResolveOptions apiKeys settings serverEnv))))
          = Inr res"
  shows "snd (getDynamicModels resolve fetch apiKeys settings serverEnv) =
    Inr (map toModelInfo (filter (\<lambda>m.
      object m = ''model'' \<and>
      (prefix ''gpt-'' (model_id m) \<or> prefix ''o'' (model_id m) \<or> prefix ''chatgpt-'' (model_id m)) \<and>
      model_id m \<notin> {''gpt-4o'', ''gpt-4o-mini'', ''gpt-3.5-turbo'', ''o1-preview'', ''o1-mini'',
        ''qwen/qwen3-coder-480b-a35b-instruct'', ''moonshotai/kimi-k2-instruct-0905''}) (data res)))"
proof -
  have "filter keepModel (data res) = filter (\<lambda>m.
      object m = ''model'' \<and>
      (prefix ''gpt-'' (model_id m) \<or> prefix ''o'' (model_id m) \<or> prefix ''chatgpt-'' (model_id m)) \<and>
      model_id m \<notin> {''gpt-4o'', ''gpt-4o-mini'', ''gpt-3.5-turbo'', ''o1-preview'', ''o1-mini'',
        ''qwen/qwen3-coder-480b-a35b-instruct'', ''moonshotai/kimi-k2-instruct-0905''}) (data res)"
    by (rule filter_cong) (simp_all only: keepModel_iff)
  with assms show ?thesis
    by (simp add: getDynamicModels_def Let_def)
qed

theorem getDynamicModels_keeps_witness:
  "snd (getDynamicModels (fixedResolve \<lparr>apiKey = Some ''key'', baseUrl = Some ''http://h/v1''\<rparr>)
      (fixedFetch (Inr \<lparr>data = [
          \<lparr>model_id = ''gpt-5'', object = ''model'', context_length = None\<rparr>,
          \<lparr>model_id = ''gpt-4o'', object = ''model'', context_length = None\<rparr>,
          \<lparr>model_id = ''o3-mini'', object = ''list'', context_length = None\<rparr>,
          \<lparr>model_id = ''GPT-4o'', object = ''model'', context_length = Some 64000\<rparr>,
          \<lparr>model_id = ''gpt-4O'', object = ''model'', context_length = Some 64000\<rparr>,
          \<lparr>model_id = ''omni-moderation-latest'', object = ''model'', context_length = None\<rparr>]\<rparr>))
      None None None)
   = Inr [\<lparr>name = ''gpt-5'', label = ''gpt-5 (32k context)'',
           provider = ''NVIDIA'', maxTokenAllowed = 32000, maxCompletionTokens = 4096\<rparr>,
          \<lparr>name = ''gpt-4O'', label = ''gpt-4O (64k context)'',
           provider = ''NVIDIA'', maxTokenAllowed = 64000, maxCompletionTokens = 8192\<rparr>,
          \<lparr>name = ''omni-moderation-latest'', label = ''omni-moderation-latest (32k context)'',
           provider = ''NVIDIA'', maxTokenAllowed = 32000, maxCompletionTokens = 4096\<rparr>]"
proof -
  let ?c = "\<lparr>apiKey = Some ''key'', baseUrl = Some ''http://h/v1''\<rparr>"
  let ?res = "\<lparr>data = [
          \<lparr>model_id = ''gpt-5'', object = ''model'', context_length = None\<rparr>,
          \<lparr>model_id = ''gpt-4o'', object = ''model'', context_length = None\<rparr>,
          \<lparr>model_id = ''o3-mini'', object = ''list'', context_length = None\<rparr>,
          \<lparr>model_id = ''GPT-4o'', object = ''model'', context_length = Some 64000\<rparr>,
          \<lparr>model_id = ''gpt-4O'', object = ''model'', context_length = Some 64000\<rparr>,
          \<lparr>model_id = ''omni-moderation-latest'', object = ''model'', context_length = None\<rparr>]\<rparr>"
  have k: "apiKey (fixedResolve ?c (dynamicResolveOptions None None None)) = Some ''key''"
    by (simp add: fixedResolve_def)
  have ne: "''key'' \<noteq> []" by simp
  have f: "fixedFetch (Inr ?res)
      (modelsRequest ''key'' (baseUrl (fixedResolve ?c (dynamicResolveOptions None None None))))
      = Inr ?res"
    by (simp add: fixedFetch_def)
  show ?thesis
    unfolding getDynamicModels_keeps [where resolve = "fixedResolve ?c" and fetch = "fixedFetch (Inr ?res)"
        and apiKeys = None and settings = None and serverEnv = None, OF k ne f]
    by (simp add: eval_defs)
qed

section \<open>Client construction without an API key\<close>

text \<open>
  C2. \<open>getModelInstance\<close> has no failing branch (it is a total function into the
  handle). For every input where no API key resolves (the resolver gives \<open>undefined\<close>
  or the empty string), it uses the embedded literal as the API key, also in the
  Authorization header, and returns the handle.
\<close>

theorem getModelInstance_hardcoded_key:
  assumes "\<not> truthy (apiKey (resolve (instanceResolveOptions opts)))"
  shows "getModelInstance resolve opts =
    \<lparr>baseURL = orElse (baseUrl (resolve (instanceResolveOptions opts)))
                  ''https://integrate.api.nvidia.com/v1'',
     clientApiKey = ''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'',
     clientHeaders =
       [(''Authorization'',
         ''Bearer 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''),
        (''Content-Type'', ''application/json'')],
     clientModel = inst_model opts\<rparr>"
proof -
  from assms have "orElse (apiKey (resolve (instanceResolveOptions opts))) hardcodedApiKey
      = hardcodedApiKey"
    by (cases "apiKey (resolve (instanceResolveOptions opts))") simp_all
  then show ?thesis
    by (simp add: getModelInstance_def Let_def hardcodedApiKey_def)
qed

theorem getModelInstance_hardcoded_key_witness:
  "\<not> truthy (apiKey (fixedResolve \<lparr>apiKey = None, baseUrl = None\<rparr>
      (instanceResolveOptions \<lparr>inst_model = ''gpt-4o'', inst_serverEnv = Map.empty,
         inst_apiKeys = None, inst_providerSettings = None\<rparr>))) \<and>
   getModelInstance (fixedResolve \<lparr>apiKey = None, baseUrl = None\<rparr>)
      \<lparr>inst_model = ''gpt-4o'', inst_serverEnv = Map.empty,
       inst_apiKeys = None, inst_providerSettings = None\<rparr> =
    \<lparr>baseURL = ''https://integrate.api.nvidia.com/v1'',
     clientApiKey = ''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'',
     clientHeaders =
       [(''Authorization'',
         ''Bearer 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''),
        (''Content-Type'', ''application/json'')],
     clientModel = ''gpt-4o''\<rparr>"
proof -
  let ?r = "fixedResolve \<lparr>apiKey = None, baseUrl = None\<rparr>"
  let ?o = "\<lparr>inst_model = ''gpt-4o'', inst_serverEnv = Map.empty,
       inst_apiKeys = None, inst_providerSettings = None\<rparr> :: unit InstanceOptions"
  have a: "\<not> truthy (apiKey (?r (instanceResolveOptions ?o)))"
    by (simp add: fixedResolve_def)
  have b: "baseUrl (?r (instanceResolveOptions ?o)) = None"
    by (simp add: fixedResolve_def)
  from getModelInstance_hardcoded_key [where resolve = ?r and opts = ?o, OF a] a
  show ?thesis by (simp add: b)
qed

section \<open>The dynamic fetch without an API key\<close>

text \<open>
  C3. For every input to \<open>getDynamicModels\<close> where no API key resolves, the result is
  the thrown string \<open>Missing API Key configuration for NVIDIA API\<close>, and the list of
  requests sent is empty: \<open>fetch\<close> is never called.
\<close>

theorem getDynamicModels_missing_key:
  assumes "\<not> truthy (apiKey (resolve (dynamicResolveOptions apiKeys settings serverEnv)))"
  shows "getDynamicModels resolve fetch apiKeys settings serverEnv =
    ([], Inl (ThrownString ''Missing API Key configuration for NVIDIA API''))"
  using assms
  by (cases "apiKey (resolve (dynamicResolveOptions apiKeys settings serverEnv))")
     (simp_all add: getDynamicModels_def)

theorem getDynamicModels_missing_key_witness:
  "\<not> truthy (apiKey (fixedResolve \<lparr>apiKey = None, baseUrl = None\<rparr> (dynamicResolveOptions None None None))) \<and>
   \<not> truthy (apiKey (fixedResolve \<lparr>apiKey = Some '''', baseUrl = Some ''http://h/v1''\<rparr>
        (dynamicResolveOptions (Some Map.empty) None (Some Map.empty)))) \<and>
   getDynamicModels (fixedResolve \<lparr>apiKey = None, baseUrl = None\<rparr>)
      (fixedFetch (Inr \<lparr>data = []\<rparr>)) None None None
    = ([], Inl (ThrownString ''Missing API Key configuration for NVIDIA API'')) \<and>
   getDynamicModels (fixedResolve \<lparr>apiKey = Some '''', baseUrl = Some ''http://h/v1''\<rparr>)
      (fixedFetch (Inl (TransportError ''unreachable''))) (Some Map.empty) None (Some Map.empty)
    = ([], Inl (ThrownString ''Missing API Key configuration for NVIDIA API''))"
proof -
  have a: "\<not> truthy (apiKey (fixedResolve \<lparr>apiKey = None, baseUrl = None\<rparr>
      (dynamicResolveOptions None None None)))"
    by (simp add: fixedResolve_def)
  have b: "\<not> truthy (apiKey (fixedResolve \<lparr>apiKey = Some '''', baseUrl = Some ''http://h/v1''\<rparr>
        (dynamicResolveOptions (Some Map.empty) None (Some Map.empty))))"
    by (simp add: fixedResolve_def)
  show ?thesis
    using a b getDynamicModels_missing_key [where resolve = "fixedResolve \<lparr>apiKey = None, baseUrl = None\<rparr>", OF a]
      getDynamicModels_missing_key [where resolve = "fixedResolve \<lparr>apiKey = Some '''', baseUrl = Some ''http://h/v1''\<rparr>", OF b]
    by simp
qed

section \<open>The ceiling of the context window\<close>

text \<open>
  C4. Every descriptor of the static catalog, and every descriptor that the dynamic fetch
  returns, for any resolver, any remote response and any context_length in it, has
  maxTokenAllowed at most 128000.
\<close>

theorem maxTokenAllowed_at_most_128000:
  "list_all (\<lambda>d. maxTokenAllowed d \<le> 128000) staticModels \<and>
   (getDynamicModels resolve fetch apiKeys settings serverEnv = (reqs, Inr ds) \<longrightarrow>
      list_all (\<lambda>d. maxTokenAllowed d \<le> 128000) ds)"
proof
  show "list_all (\<lambda>d. maxTokenAllowed d \<le> 128000) staticModels"
    by (simp add: staticModels_def)
  show "getDynamicModels resolve fetch apiKeys settings serverEnv = (reqs, Inr ds) \<longrightarrow>
      list_all (\<lambda>d. maxTokenAllowed d \<le> 128000) ds"
    by (auto simp: getDynamicModels_def Let_def list_all_iff toModelInfo_capped
        split: option.splits if_splits sum.splits)
qed

theorem maxTokenAllowed_at_most_128000_witness:
  "getDynamicModels (fixedResolve \<lparr>apiKey = Some ''key'', baseUrl = None\<rparr>)
      (fixedFetch (Inr \<lparr>data = [
          \<lparr>model_id = ''o1-preview-v2'', object = ''model'', context_length = Some 200000\<rparr>,
          \<lparr>model_id = ''gpt-3.5-turbo-16k'', object = ''model'', context_length = None\<rparr>]\<rparr>))
      None None None
    = ([\<lparr>url = ''https://integrate.api.nvidia.com/v1/models'',
         headers = [(''Authorization'', ''Bearer key''), (''Content-Type'', ''application/json'')]\<rparr>],
       Inr [\<lparr>name = ''o1-preview-v2'', label = ''o1-preview-v2 (200k context)'',
             provider = ''NVIDIA'', maxTokenAllowed = 128000, maxCompletionTokens = 32000\<rparr>,
            \<lparr>name = ''gpt-3.5-turbo-16k'', label = ''gpt-3.5-turbo-16k (16k context)'',
             provider = ''NVIDIA'', maxTokenAllowed = 16385, maxCompletionTokens = 4096\<rparr>]) \<and>
   list_all (\<lambda>d. maxTokenAllowed d \<le> 128000)
      [\<lparr>name = ''o1-preview-v2'', label = ''o1-preview-v2 (200k context)'',
             provider = ''NVIDIA'', maxTokenAllowed = 128000, maxCompletionTokens = 32000\<rparr>,
            \<lparr>name = ''gpt-3.5-turbo-16k'', label = ''gpt-3.5-turbo-16k (16k context)'',
             provider = ''NVIDIA'', maxTokenAllowed = 16385, maxCompletionTokens = 4096\<rparr>]"
proof -
  have run: "getDynamicModels (fixedResolve \<lparr>apiKey = Some ''key'', baseUrl = None\<rparr>)
      (fixedFetch (Inr \<lparr>data = [
          \<lparr>model_id = ''o1-preview-v2'', object = ''model'', context_length = Some 200000\<rparr>,
          \<lparr>model_id = ''gpt-3.5-turbo-16k'', object = ''model'', context_length = None\<rparr>]\<rparr>))
      None None None
    = ([\<lparr>url = ''https://integrate.api.nvidia.com/v1/models'',
         headers = [(''Authorization'', ''Bearer key''), (''Content-Type'', ''application/json'')]\<rparr>],
       Inr [\<lparr>name = ''o1-preview-v2'', label = ''o1-preview-v2 (200k context)'',
             provider = ''NVIDIA'', maxTokenAllowed = 128000, maxCompletionTokens = 32000\<rparr>,
            \<lparr>name = ''gpt-3.5-turbo-16k'', label = ''gpt-3.5-turbo-16k (16k context)'',
             provider = ''NVIDIA'', maxTokenAllowed = 16385, maxCompletionTokens = 4096\<rparr>])"
    by (simp add: run_defs eval_defs)
  from maxTokenAllowed_at_most_128000 [THEN conjunct2, THEN mp, OF run] run
  show ?thesis by (intro conjI)
qed

section \<open>The static catalog\<close>

text \<open>
  C5. The static catalog has exactly seven descriptors, each with a strictly positive
  maxTokenAllowed and a strictly positive maxCompletionTokens, and the seven names are
  pairwise distinct.
\<close>

theorem staticModels_seven_positive_distinct:
  "length staticModels = 7 \<and>
   list_all (\<lambda>m. 0 < maxTokenAllowed m \<and> 0 < maxCompletionTokens m) staticModels \<and>
   distinct (map name staticModels)"
  by (simp add: staticModels_def)

section \<open>Two transformed records\<close>

text \<open>
  C6. The record with id \<open>gpt-4o-2025\<close>, object \<open>model\<close> and no context_length passes
  the filter and is transformed into the descriptor with maxTokenAllowed 128000,
  maxCompletionTokens 4096 and label \<open>gpt-4o-2025 (128k context)\<close>.
\<close>

theorem gpt_4o_2025_descriptor:
  "getDynamicModels (fixedResolve \<lparr>apiKey = Some ''key'', baseUrl = None\<rparr>)
      (fixedFetch (Inr \<lparr>data = [\<lparr>model_id = ''gpt-4o-2025'', object = ''model'',
                                  context_length = None\<rparr>]\<rparr>)) None None None
   = ([\<lparr>url = ''https://integrate.api.nvidia.com/v1/models'',
        headers = [(''Authorization'', ''Bearer key''), (''Content-Type'', ''application/json'')]\<rparr>],
      Inr [\<lparr>name = ''gpt-4o-2025'', label = ''gpt-4o-2025 (128k context)'',
        provider = ''NVIDIA'', maxTokenAllowed = 128000, maxCompletionTokens = 4096\<rparr>])
   \<and> toModelInfo \<lparr>model_id = ''gpt-4o-2025'', object = ''model'', context_length = None\<rparr>
     = \<lparr>name = ''gpt-4o-2025'', label = ''gpt-4o-2025 (128k context)'',
        provider = ''NVIDIA'', maxTokenAllowed = 128000, maxCompletionTokens = 4096\<rparr>"
  by (simp add: run_defs eval_defs)

text \<open>
  C7. The record with id \<open>o1-preview-v2\<close>, object \<open>model\<close> and context_length 200000
  passes the filter and is transformed into a descriptor with maxTokenAllowed capped at
  128000 and maxCompletionTokens 32000.
\<close>

theorem o1_preview_v2_descriptor:
  "getDynamicModels (fixedResolve \<lparr>apiKey = Some ''key'', baseUrl = None\<rparr>)
      (fixedFetch (Inr \<lparr>data = [\<lparr>model_id = ''o1-preview-v2'', object = ''model'',
                                  context_length = Some 200000\<rparr>]\<rparr>)) None None None
   = ([\<lparr>url = ''https://integrate.api.nvidia.com/v1/models'',
        headers = [(''Authorization'', ''Bearer key''), (''Content-Type'', ''application/json'')]\<rparr>],
      Inr [\<lparr>name = ''o1-preview-v2'', label = ''o1-preview-v2 (200k context)'',
        provider = ''NVIDIA'', maxTokenAllowed = 128000, maxCompletionTokens = 32000\<rparr>])
   \<and> toModelInfo \<lparr>model_id = ''o1-preview-v2'', object = ''model'', context_length = Some 200000\<rparr>
     = \<lparr>name = ''o1-preview-v2'', label = ''o1-preview-v2 (200k context)'',
        provider = ''NVIDIA'', maxTokenAllowed = 128000, maxCompletionTokens = 32000\<rparr>"
  by (simp add: run_defs eval_defs)

section \<open>The base URL of the client\<close>

text \<open>
  C8. Where a base URL resolves (a non-empty string), the handle is bound to that value;
  where none resolves, the handle is bound to \<open>https://integrate.api.nvidia.com/v1\<close>.
\<close>

theorem getModelInstance_baseURL:
  "(baseUrl (resolve (instanceResolveOptions opts)) = Some u \<and> u \<noteq> [] \<longrightarrow>
      baseURL (getModelInstance resolve opts) = u) \<and>
   (\<not> truthy (baseUrl (resolve (instanceResolveOptions opts))) \<longrightarrow>
      baseURL (getModelInstance resolve opts) = ''https://integrate.api.nvidia.com/v1'')"
  by (cases "baseUrl (resolve (instanceResolveOptions opts))")
     (simp_all add: getModelInstance_def Let_def)

theorem getModelInstance_baseURL_witness:
  "baseUrl (fixedResolve \<lparr>apiKey = Some ''key'', baseUrl = Some ''http://localhost:8000/v1''\<rparr>
      (instanceResolveOptions \<lparr>inst_model = ''gpt-4o'', inst_serverEnv = Map.empty,
         inst_apiKeys = None, inst_providerSettings = None\<rparr>)) = Some ''http://localhost:8000/v1'' \<and>
   ''http://localhost:8000/v1'' \<noteq> [] \<and>
   baseURL (getModelInstance
      (fixedResolve \<lparr>apiKey = Some ''key'', baseUrl = Some ''http://localhost:8000/v1''\<rparr>)
      \<lparr>inst_model = ''gpt-4o'', inst_serverEnv = Map.empty,
       inst_apiKeys = None, inst_providerSettings = None\<rparr>) = ''http://localhost:8000/v1'' \<and>
   \<not> truthy (baseUrl (fixedResolve \<lparr>apiKey = Some ''key'', baseUrl = None\<rparr>
      (instanceResolveOptions \<lparr>inst_model = ''gpt-4o'', inst_serverEnv = Map.empty,
         inst_apiKeys = None, inst_providerSettings = None\<rparr>))) \<and>
   baseURL (getModelInstance (fixedResolve \<lparr>apiKey = Some ''key'', baseUrl = None\<rparr>)
      \<lparr>inst_model = ''gpt-4o'', inst_serverEnv = Map.empty,
       inst_apiKeys = None, inst_providerSettings = None\<rparr>) = ''https://integrate.api.nvidia.com/v1''"
proof -
  let ?r1 = "fixedResolve \<lparr>apiKey = Some ''key'', baseUrl = Some ''http://localhost:8000/v1''\<rparr>"
  let ?r2 = "fixedResolve \<lparr>apiKey = Some ''key'', baseUrl = None\<rparr>"
  let ?o = "\<lparr>inst_model = ''gpt-4o'', inst_serverEnv = Map.empty,
       inst_apiKeys = None, inst_providerSettings = None\<rparr> :: unit InstanceOptions"
  have a: "baseUrl (?r1 (instanceResolveOptions ?o)) = Some ''http://localhost:8000/v1''"
    by (simp add: fixedResolve_def)
  have ne: "''http://localhost:8000/v1'' \<noteq> []" by simp
  have b: "\<not> truthy (baseUrl (?r2 (instanceResolveOptions ?o)))"
    by (simp add: fixedResolve_def)
  from getModelInstance_baseURL [where resolve = ?r1 and opts = ?o and u = "''http://localhost:8000/v1''"]
    a ne
  have c: "baseURL (getModelInstance ?r1 ?o) = ''http://localhost:8000/v1''" by blast
  from getModelInstance_baseURL [where resolve = ?r2 and opts = ?o] b
  have d: "baseURL (getModelInstance ?r2 ?o) = ''https://integrate.api.nvidia.com/v1''" by blast
  from a ne c b d show ?thesis by (intro conjI)
qed

section \<open>The label and the capped window\<close>

text \<open>
  C9, as stated, fails for a context_length between 128001 and 128999: the label is
  computed from the uncapped value, but rounded down to thousands it shows 128k, which is
  what the cap of 128000 shows too. At 128500 the label is the one that the capped value
  would give.
\<close>

theorem label_cap_agree_counterexample:
  "label (toModelInfo \<lparr>model_id = ''gpt-5'', object = ''model'', context_length = Some 128500\<rparr>)
     = ''gpt-5 (128k context)'' \<and>
   maxTokenAllowed (toModelInfo \<lparr>model_id = ''gpt-5'', object = ''model'',
     context_length = Some 128500\<rparr>) = 128000 \<and>
   ''gpt-5'' @ '' ('' @ showInt (128000 div 1000) @ ''k context)'' = ''gpt-5 (128k context)''"
  by (simp add: eval_defs)

text \<open>
  C9, amended. For every remote record whose context_length is an integer greater than
  128000 and at most 9007199254740991 (the largest integer up to which JavaScript numbers
  are exact), the label shows the uncapped value in thousands, rounded down, while
  maxTokenAllowed is 128000; the label differs from the one the capped value would give
  exactly when context_length is at least 129000.
\<close>

theorem label_uses_uncapped_window:
  assumes "context_length m = Some n" and "128000 < n" and "n \<le> 9007199254740991"
  shows "label (toModelInfo m) = model_id m @ '' ('' @ showInt (n div 1000) @ ''k context)'' \<and>
         maxTokenAllowed (toModelInfo m) = 128000 \<and>
         (label (toModelInfo m) \<noteq>
            model_id m @ '' ('' @ showInt (maxTokenAllowed (toModelInfo m) div 1000) @ ''k context)'')
           = (129000 \<le> n)"
proof -
  from assms have cw: "contextWindow m = n" by (simp add: contextWindow_def)
  have cap: "maxTokenAllowed (toModelInfo m) = 128000"
    using assms(2) by (simp add: toModelInfo_def cw)
  have lab: "label (toModelInfo m) = model_id m @ '' ('' @ showInt (n div 1000) @ ''k context)''"
    by (simp add: toModelInfo_def cw)
  have nn: "0 \<le> n div 1000" using assms(2) by simp
  have c128: "showInt 128 = ''128''"
    by (simp add: showInt_def showNat_128)
  have "(showInt (n div 1000) = ''128'') = (n div 1000 = 128)"
    by (rule showInt_eq_128 [OF nn])
  moreover have "(n div 1000 = 128) = (\<not> 129000 \<le> n)" using assms(2) by linarith
  ultimately show ?thesis by (simp add: cap lab c128)
qed

theorem label_uses_uncapped_window_witness:
  "context_length \<lparr>model_id = ''o1-preview-v2'', object = ''model'', context_length = Some 200000\<rparr>
     = Some 200000 \<and> (128000::int) < 200000 \<and> (200000::int) \<le> 9007199254740991 \<and>
   (129000::int) \<le> 200000 \<and>
   label (toModelInfo \<lparr>model_id = ''o1-preview-v2'', object = ''model'', context_length = Some 200000\<rparr>)
     = ''o1-preview-v2 (200k context)'' \<and>
   maxTokenAllowed (toModelInfo \<lparr>model_id = ''o1-preview-v2'', object = ''model'',
      context_length = Some 200000\<rparr>) = 128000 \<and>
   label (toModelInfo \<lparr>model_id = ''o1-preview-v2'', object = ''model'', context_length = Some 200000\<rparr>)
     \<noteq> ''o1-preview-v2 (128k context)''"
proof -
  let ?m = "\<lparr>model_id = ''o1-preview-v2'', object = ''model'', context_length = Some (200000::int)\<rparr>"
  have a: "context_length ?m = Some 200000" by simp
  have b: "(128000::int) < 200000" by simp
  have s200: "showInt 200 = ''200''" by (simp add: showInt_def showNat.simps digit_def)
  have s128: "showInt 128 = ''128''" by (simp add: showInt_def showNat.simps digit_def)
  have c: "(129000::int) \<le> 200000" by simp
  have ub: "(200000::int) \<le> 9007199254740991" by simp
  note th = label_uses_uncapped_window [OF a b ub]
  from th have lab: "label (toModelInfo ?m) = ''o1-preview-v2 (200k context)''"
    by (simp add: s200)
  from th have cap: "maxTokenAllowed (toModelInfo ?m) = 128000" by simp
  from th have "(label (toModelInfo ?m) \<noteq>
      model_id ?m @ '' ('' @ showInt (maxTokenAllowed (toModelInfo ?m) div 1000) @ ''k context)'')
      = ((129000::int) \<le> 200000)"
    by (elim conjE)
  with c have "label (toModelInfo ?m) \<noteq>
      model_id ?m @ '' ('' @ showInt (maxTokenAllowed (toModelInfo ?m) div 1000) @ ''k context)''"
    by (simp only: simp_thms)
  then have dis: "label (toModelInfo ?m) \<noteq> ''o1-preview-v2 (128k context)''"
    by (simp add: cap s128)
  from a b ub c lab cap dis show ?thesis by (intro conjI)
qed

section \<open>The order of the completion-limit rules\<close>

text \<open>
  C10. The rule for the substrings \<open>o3\<close> and \<open>o4\<close> comes before the rule for
  \<open>gpt-4o\<close>: every record whose id does not start with \<open>o1\<close> and contains \<open>o3\<close>
  or \<open>o4\<close> gets maxCompletionTokens 100000, also an id such as \<open>gpt-4o3\<close> that
  contains \<open>gpt-4o\<close>.
\<close>

theorem o3_o4_rule_precedes_gpt_4o:
  assumes "\<not> prefix ''o1'' (model_id m)"
    and "sublist ''o3'' (model_id m) \<or> sublist ''o4'' (model_id m)"
  shows "maxCompletionTokens (toModelInfo m) = 100000"
proof -
  from assms(1) have n1: "\<not> startsWith (model_id m) ''o1''" by (simp add: startsWith_prefix)
  with startsWith_o1_variants [of "model_id m"]
  have n2: "\<not> startsWith (model_id m) ''o1-preview''" and n3: "\<not> startsWith (model_id m) ''o1-mini''"
    by blast+
  from assms(2) have inc: "includesStr (model_id m) ''o3'' \<or> includesStr (model_id m) ''o4''"
    by (simp add: includesStr_sublist)
  from n1 n2 n3 inc show ?thesis
    by (simp add: toModelInfo_def completionLimit_def)
qed

theorem o3_o4_rule_precedes_gpt_4o_witness:
  "\<not> prefix ''o1'' (model_id \<lparr>model_id = ''gpt-4o3'', object = ''model'', context_length = None\<rparr>) \<and>
   sublist ''o3'' (model_id \<lparr>model_id = ''gpt-4o3'', object = ''model'', context_length = None\<rparr>) \<and>
   sublist ''gpt-4o'' ''gpt-4o3'' \<and>
   maxCompletionTokens (toModelInfo \<lparr>model_id = ''gpt-4o3'', object = ''model'',
     context_length = None\<rparr>) = 100000"
proof -
  let ?m = "\<lparr>model_id = ''gpt-4o3'', object = ''model'', context_length = None\<rparr>"
  have a: "\<not> prefix ''o1'' (model_id ?m)" by simp
  have b: "sublist ''o3'' (model_id ?m)"
    by (simp add: includesStr_sublist [symmetric] startsWith_def)
  have c: "sublist ''gpt-4o'' ''gpt-4o3''"
    by (simp add: includesStr_sublist [symmetric] startsWith_def)
  from b have b': "sublist ''o3'' (model_id ?m) \<or> sublist ''o4'' (model_id ?m)" by (rule disjI1)
  from a b c o3_o4_rule_precedes_gpt_4o [OF a b'] show ?thesis by (intro conjI)
qed

end
